theory Spec2Isabelle
  imports Main
begin

section \<open>RadioButtonHelper: the toggle-button controller of src/RadioButtonHelper.js\<close>

text \<open>
  The helper binds one display object (its target) to six timeline labels. It keeps
  three booleans (checked, hovered, pressed), listens to four pointer events on the
  target and, on each of them, tells the target which label to go to.

  The embedding follows the JavaScript:
  \<^item> a JavaScript value that the code only stores, compares with \<open>null\<close> or tests for
    truthiness is a \<open>jsval\<close>;
  \<^item> the helper object is the record \<open>helper\<close>, a display object is the record
    \<open>dobj\<close>;
  \<^item> objects are held by reference: a \<open>store\<close> maps addresses to display objects,
    and the helper holds the address of its target, so that a hit area that is the
    target itself is the same address;
  \<^item> a call that the code makes on a display object (subscribe, unsubscribe, seek) is
    appended to the object's \<open>calls\<close>, which is what a recording stub would see;
  \<^item> a thrown exception is the \<open>Inl\<close> of a sum type.
\<close>

subsection \<open>JavaScript values\<close>

text \<open>
  Labels are documented as \<open>String | Number\<close> (a label name or a frame number), and an
  omitted argument is \<open>undefined\<close>. Frame numbers are integers.
\<close>

datatype jsval =
    JUndefined
  | JNull
  | JBool bool
  | JNum int
  | JStr string

text \<open>\<open>x == null\<close>: loose equality with \<open>null\<close> holds for \<open>null\<close> and \<open>undefined\<close> only.\<close>

fun eq_null :: "jsval \<Rightarrow> bool" where
  "eq_null JUndefined = True"
| "eq_null JNull = True"
| "eq_null (JBool b) = False"
| "eq_null (JNum n) = False"
| "eq_null (JStr s) = False"

text \<open>
  \<open>x == "lit"\<close> for a string literal that is not numeric: a string equals it when it is
  the same string; a number or a boolean is compared with the literal's numeric value,
  which is NaN; \<open>null\<close> and \<open>undefined\<close> equal only each other.
\<close>

fun eq_lit :: "jsval \<Rightarrow> string \<Rightarrow> bool" where
  "eq_lit (JStr s) lit = (s = lit)"
| "eq_lit JUndefined lit = False"
| "eq_lit JNull lit = False"
| "eq_lit (JBool b) lit = False"
| "eq_lit (JNum n) lit = False"

text \<open>Truthiness, as tested by \<open>if (x)\<close>.\<close>

fun truthy :: "jsval \<Rightarrow> bool" where
  "truthy JUndefined = False"
| "truthy JNull = False"
| "truthy (JBool b) = b"
| "truthy (JNum n) = (n \<noteq> 0)"
| "truthy (JStr s) = (s \<noteq> [])"

datatype js_error = TypeError | RangeError

subsection \<open>Display objects and the store\<close>

type_synonym addr = nat

text \<open>
  A function held in the target's reset slot: a function of the host (identified by a
  number), or the helper's own \<open>_reset\<close> (line 339).
\<close>

datatype fn_ref = HostFn nat | HelperReset

datatype call =
    AddEventListener string
  | RemoveEventListener string
  | GotoAndPlay jsval
  | GotoAndStop jsval

text \<open>
  The properties of a display object that the helper reads or writes. The four
  \<open>has_\<close> fields say whether the object has that method. \<open>u_reset\<close> is the property
  \<open>_reset\<close> and \<open>uu_reset\<close> is the property \<open>__reset\<close> (\<open>None\<close>: absent).
\<close>

record dobj =
  has_addEventListener :: bool
  has_removeEventListener :: bool
  has_gotoAndPlay :: bool
  has_gotoAndStop :: bool
  mouseChildren :: jsval
  cursor :: jsval
  actionsEnabled :: jsval
  paused :: jsval
  hitArea :: "addr option"
  u_reset :: "fn_ref option"
  uu_reset :: "fn_ref option"
  calls :: "call list"

type_synonym store = "addr \<Rightarrow> dobj"

text \<open>\<open>obj.addEventListener(name, this)\<close> and \<open>obj.removeEventListener(name, this)\<close>.\<close>

definition addEventListener :: "dobj \<Rightarrow> string \<Rightarrow> dobj" where
  "addEventListener obj name = obj\<lparr>calls := calls obj @ [AddEventListener name]\<rparr>"

definition removeEventListener :: "dobj \<Rightarrow> string \<Rightarrow> dobj" where
  "removeEventListener obj name = obj\<lparr>calls := calls obj @ [RemoveEventListener name]\<rparr>"

subsection \<open>The helper\<close>

text \<open>
  The fields of the helper, lines 89 to 169. The private fields \<open>_isPressed\<close>,
  \<open>_isOver\<close>, \<open>_enabled\<close> and \<open>_checked\<close> are documented as Boolean and are \<open>bool\<close>
  here, without their underscore.
\<close>

record helper =
  target :: addr
  overFalseLabel :: jsval
  outFalseLabel :: jsval
  downFalseLabel :: jsval
  overTrueLabel :: jsval
  outTrueLabel :: jsval
  downTrueLabel :: jsval
  play :: jsval
  isPressed :: bool
  isOver :: bool
  enabled :: bool
  checked :: bool

text \<open>An event, of which the handler reads the \<open>type\<close> only; \<open>{}\<close> has type \<open>undefined\<close>.\<close>

record event =
  evt_type :: jsval

text \<open>
  Lines 327 to 331 and, the same, lines 281 to 285:
  \<^verbatim>\<open>if (this.play) { t.gotoAndPlay&&t.gotoAndPlay(label); }
  else { t.gotoAndStop&&t.gotoAndStop(label); }\<close>
\<close>

definition goto_label :: "helper \<Rightarrow> store \<Rightarrow> jsval \<Rightarrow> store" where
  "goto_label this \<sigma> label =
     (let t = \<sigma> (target this) in
      if truthy (play this) then
        (if has_gotoAndPlay t
         then \<sigma>(target this := t\<lparr>calls := calls t @ [GotoAndPlay label]\<rparr>)
         else \<sigma>)
      else
        (if has_gotoAndStop t
         then \<sigma>(target this := t\<lparr>calls := calls t @ [GotoAndStop label]\<rparr>)
         else \<sigma>))"

text \<open>\<open>setEnabled\<close>, lines 193 to 212; the property \<open>enabled\<close> is set through it (line 230).\<close>

definition setEnabled :: "helper \<Rightarrow> store \<Rightarrow> bool \<Rightarrow> js_error + (helper \<times> store)" where
  "setEnabled this \<sigma> val =
     (if val = enabled this then Inr (this, \<sigma>)
      else
        let obj = \<sigma> (target this);
            this1 = this\<lparr>enabled := val\<rparr>
        in
        if val then
          (let o1 = obj\<lparr>cursor := JStr ''pointer''\<rparr> in
           if \<not> has_addEventListener o1 then Inl TypeError
           else
             let o2 = addEventListener o1 ''rollover'';
                 o3 = addEventListener o2 ''rollout'';
                 o4 = addEventListener o3 ''mousedown'';
                 o5 = addEventListener o4 ''pressup'';
                 o6 = (case u_reset o5 of
                         Some f \<Rightarrow> o5\<lparr>uu_reset := Some f, u_reset := Some HelperReset\<rparr>
                       | None \<Rightarrow> o5)
             in Inr (this1, \<sigma>(target this := o6)))
        else
          (let o1 = obj\<lparr>cursor := JNull\<rparr> in
           if \<not> has_removeEventListener o1 then Inl TypeError
           else
             let o2 = removeEventListener o1 ''rollover'';
                 o3 = removeEventListener o2 ''rollout'';
                 o4 = removeEventListener o3 ''mousedown'';
                 o5 = removeEventListener o4 ''pressup'';
                 o6 = (case uu_reset o5 of
                         Some f \<Rightarrow> o5\<lparr>u_reset := Some f, uu_reset := None\<rparr>
                       | None \<Rightarrow> o5)
             in Inr (this1, \<sigma>(target this := o6))))"

definition getEnabled :: "helper \<Rightarrow> bool" where
  "getEnabled this = enabled this"

definition getValue :: "helper \<Rightarrow> bool" where
  "getValue this = checked this"

text \<open>\<open>setValue\<close>, lines 259 to 286.\<close>

definition setValue :: "helper \<Rightarrow> store \<Rightarrow> bool \<Rightarrow> helper \<times> store" where
  "setValue this \<sigma> val =
     (let this1 = this\<lparr>checked := val\<rparr>;
          label =
            (if checked this1 then
               (if isPressed this1 then downTrueLabel this1
                else if isOver this1 then overTrueLabel this1
                else outTrueLabel this1)
             else
               (if isPressed this1 then downFalseLabel this1
                else if isOver this1 then overFalseLabel this1
                else outFalseLabel this1))
      in (this1, goto_label this1 \<sigma> label))"

text \<open>\<open>handleEvent\<close>, lines 294 to 332.\<close>

definition handleEvent :: "helper \<Rightarrow> store \<Rightarrow> event \<Rightarrow> helper \<times> store" where
  "handleEvent this \<sigma> evt =
     (let type = evt_type evt;
          (this1, label) =
            (if checked this then
               (if eq_lit type ''mousedown'' then
                  (this\<lparr>isPressed := True, checked := False\<rparr>, downFalseLabel this)
                else if eq_lit type ''pressup'' then
                  (this\<lparr>isPressed := False\<rparr>,
                   if isOver this then overTrueLabel this else outTrueLabel this)
                else if eq_lit type ''rollover'' then
                  (this\<lparr>isOver := True\<rparr>,
                   if isPressed this then downTrueLabel this else overTrueLabel this)
                else
                  (this\<lparr>isOver := False\<rparr>,
                   if isPressed this then overTrueLabel this else outTrueLabel this))
             else
               (if eq_lit type ''mousedown'' then
                  (this\<lparr>isPressed := True, checked := True\<rparr>, downTrueLabel this)
                else if eq_lit type ''pressup'' then
                  (this\<lparr>isPressed := False\<rparr>,
                   if isOver this then overFalseLabel this else outFalseLabel this)
                else if eq_lit type ''rollover'' then
                  (this\<lparr>isOver := True\<rparr>,
                   if isPressed this then downFalseLabel this else overFalseLabel this)
                else
                  (this\<lparr>isOver := False\<rparr>,
                   if isPressed this then overFalseLabel this else outFalseLabel this)))
      in (this1, goto_label this1 \<sigma> label))"

text \<open>
  The helper's \<open>_reset\<close>, lines 339 to 344, run with the target as \<open>this\<close>:
  \<^verbatim>\<open>var p = this.paused; this.__reset(); this.paused = p;\<close>
  \<open>host k\<close> is what the host's function number \<open>k\<close> does to the object it is called
  on. Calling an absent \<open>__reset\<close> is a TypeError. When \<open>__reset\<close> is this same function,
  the call re-enters it with nothing changed and never returns normally: the engine
  ends it with a RangeError (call stack exceeded).
\<close>

definition p_reset :: "(nat \<Rightarrow> dobj \<Rightarrow> dobj) \<Rightarrow> dobj \<Rightarrow> js_error + dobj" where
  "p_reset host obj =
     (let p = paused obj in
      case uu_reset obj of
        None \<Rightarrow> Inl TypeError
      | Some (HostFn k) \<Rightarrow> Inr ((host k obj)\<lparr>paused := p\<rparr>)
      | Some HelperReset \<Rightarrow> Inl RangeError)"

text \<open>The host calling \<open>obj._reset()\<close>, whatever function the slot holds.\<close>

definition call_reset :: "(nat \<Rightarrow> dobj \<Rightarrow> dobj) \<Rightarrow> dobj \<Rightarrow> js_error + dobj" where
  "call_reset host obj =
     (case u_reset obj of
        None \<Rightarrow> Inl TypeError
      | Some (HostFn k) \<Rightarrow> Inr (host k obj)
      | Some HelperReset \<Rightarrow> p_reset host obj)"

text \<open>
  The fields that lines 89 to 169 of the constructor set, from the target and the
  arguments in the order of the parameter list (out, over, down for false, then for
  true, then play).
\<close>

definition init_fields ::
  "addr \<Rightarrow> jsval \<Rightarrow> jsval \<Rightarrow> jsval \<Rightarrow> jsval \<Rightarrow> jsval \<Rightarrow> jsval \<Rightarrow> jsval \<Rightarrow> helper" where
  "init_fields tgt outFalse overFalse downFalse outTrue overTrue downTrue playArg =
     \<lparr> target = tgt,
       overFalseLabel = (if eq_null overFalse then JStr ''overFalse'' else overFalse),
       outFalseLabel = (if eq_null outFalse then JStr ''outFalse'' else outFalse),
       downFalseLabel = (if eq_null downFalse then JStr ''downFalse'' else downFalse),
       overTrueLabel = (if eq_null overTrue then JStr ''overTrue'' else overTrue),
       outTrueLabel = (if eq_null outTrue then JStr ''outTrue'' else outTrue),
       downTrueLabel = (if eq_null downTrue then JStr ''downTrue'' else downTrue),
       play = playArg,
       isPressed = False,
       isOver = False,
       enabled = False,
       checked = False \<rparr>"

text \<open>
  Lines 175 to 181, the hit area: \<open>hitAreaArg\<close> is the address of the hit area, or
  \<open>None\<close> when the argument is omitted.
  \<^verbatim>\<open>if (hitArea) {
    if (hitLabel) { hitArea.actionsEnabled = false;
                    hitArea.gotoAndStop&&hitArea.gotoAndStop(hitLabel); }
    target.hitArea = hitArea; }\<close>
\<close>

definition install_hit :: "store \<Rightarrow> addr \<Rightarrow> addr option \<Rightarrow> jsval \<Rightarrow> store" where
  "install_hit \<sigma> tgt hitAreaArg hitLabel =
     (case hitAreaArg of
        None \<Rightarrow> \<sigma>
      | Some ha \<Rightarrow>
          let \<sigma>1 =
                (if truthy hitLabel then
                   let s = \<sigma>(ha := (\<sigma> ha)\<lparr>actionsEnabled := JBool False\<rparr>) in
                   if has_gotoAndStop (s ha)
                   then s(ha := (s ha)\<lparr>calls := calls (s ha) @ [GotoAndStop hitLabel]\<rparr>)
                   else s
                 else \<sigma>)
          in \<sigma>1(tgt := (\<sigma>1 tgt)\<lparr>hitArea := Some ha\<rparr>))"

text \<open>
  The constructor, lines 78 to 182. Without \<open>addEventListener\<close> on the target the
  constructor returns at line 79 with no field of the new object set: the result
  \<open>None\<close>. Line 173 sets the property \<open>enabled\<close>, which runs \<open>setEnabled\<close> (the
  accessor is defined at line 229, on a host where \<open>Object.defineProperties\<close> succeeds);
  line 174 handles the event \<open>{}\<close>.
\<close>

definition RadioButtonHelper ::
  "store \<Rightarrow> addr \<Rightarrow> jsval \<Rightarrow> jsval \<Rightarrow> jsval \<Rightarrow> jsval \<Rightarrow> jsval \<Rightarrow> jsval \<Rightarrow> jsval
     \<Rightarrow> addr option \<Rightarrow> jsval \<Rightarrow> js_error + (helper option \<times> store)" where
  "RadioButtonHelper \<sigma> tgt outFalse overFalse downFalse outTrue overTrue downTrue
       playArg hitAreaArg hitLabel =
     (if \<not> has_addEventListener (\<sigma> tgt) then Inr (None, \<sigma>)
      else
        let this = init_fields tgt outFalse overFalse downFalse outTrue overTrue downTrue playArg;
            \<sigma>1 = \<sigma>(tgt := (\<sigma> tgt)\<lparr>mouseChildren := JBool False\<rparr>)
        in
        case setEnabled this \<sigma>1 True of
          Inl e \<Rightarrow> Inl e
        | Inr (this2, \<sigma>2) \<Rightarrow>
            let (this3, \<sigma>3) = handleEvent this2 \<sigma>2 \<lparr> evt_type = JUndefined \<rparr>
            in Inr (Some this3, install_hit \<sigma>3 tgt hitAreaArg hitLabel))"

text \<open>Setting \<open>enabled\<close> to the same value twice in a row.\<close>

definition setEnabled_twice :: "helper \<Rightarrow> store \<Rightarrow> bool \<Rightarrow> js_error + (helper \<times> store)" where
  "setEnabled_twice this \<sigma> val =
     (case setEnabled this \<sigma> val of
        Inl e \<Rightarrow> Inl e
      | Inr (this1, \<sigma>1) \<Rightarrow> setEnabled this1 \<sigma>1 val)"

subsection \<open>The specification's words\<close>

text \<open>
  The label the specification assigns to a state: pressed before hovered before idle,
  each split by checked. It is written from the specification, for a helper \<open>h\<close>
  that holds the six labels, and the flags \<open>c\<close> (checked), \<open>hov\<close> (hovered) and \<open>pr\<close>
  (pressed).
\<close>

definition down_label :: "helper \<Rightarrow> bool \<Rightarrow> jsval" where
  "down_label h c = (if c then downTrueLabel h else downFalseLabel h)"

definition over_label :: "helper \<Rightarrow> bool \<Rightarrow> jsval" where
  "over_label h c = (if c then overTrueLabel h else overFalseLabel h)"

definition out_label :: "helper \<Rightarrow> bool \<Rightarrow> jsval" where
  "out_label h c = (if c then outTrueLabel h else outFalseLabel h)"

definition label_of :: "helper \<Rightarrow> bool \<Rightarrow> bool \<Rightarrow> bool \<Rightarrow> jsval" where
  "label_of h c hov pr =
     (if pr then down_label h c else if hov then over_label h c else out_label h c)"

definition priority_label :: "helper \<Rightarrow> jsval" where
  "priority_label h = label_of h (checked h) (isOver h) (isPressed h)"

text \<open>
  The seek-or-play primitive of the specification: with play mode \<open>p\<close>, what the object
  \<open>t\<close> is called with for the label \<open>l\<close>. It is play-to-label when the mode is play and
  seek-to-label otherwise, and nothing when the object lacks that method.
\<close>

definition seek_or_play :: "jsval \<Rightarrow> dobj \<Rightarrow> jsval \<Rightarrow> call list" where
  "seek_or_play p t l =
     (if truthy p then (if has_gotoAndPlay t then [GotoAndPlay l] else [])
      else (if has_gotoAndStop t then [GotoAndStop l] else []))"

text \<open>
  The store after the helper \<open>h\<close> has emitted the label \<open>l\<close>: the target has received
  the seek-or-play call, and nothing else has changed.
\<close>

definition emit :: "helper \<Rightarrow> store \<Rightarrow> jsval \<Rightarrow> store" where
  "emit h \<sigma> l =
     \<sigma>(target h := (\<sigma> (target h))
        \<lparr>calls := calls (\<sigma> (target h)) @ seek_or_play (play h) (\<sigma> (target h)) l\<rparr>)"

text \<open>The rollout-and-default branch is taken by every type but the three others.\<close>

definition rollout_or_default :: "event \<Rightarrow> bool" where
  "rollout_or_default e =
     (if eq_lit (evt_type e) ''mousedown'' then False
      else if eq_lit (evt_type e) ''pressup'' then False
      else if eq_lit (evt_type e) ''rollover'' then False
      else True)"

fun is_seek :: "call \<Rightarrow> bool" where
  "is_seek (GotoAndPlay l) = True"
| "is_seek (GotoAndStop l) = True"
| "is_seek (AddEventListener n) = False"
| "is_seek (RemoveEventListener n) = False"

fun is_subscribe :: "call \<Rightarrow> bool" where
  "is_subscribe (AddEventListener n) = True"
| "is_subscribe (RemoveEventListener n) = False"
| "is_subscribe (GotoAndPlay l) = False"
| "is_subscribe (GotoAndStop l) = False"

fun is_unsubscribe :: "call \<Rightarrow> bool" where
  "is_unsubscribe (RemoveEventListener n) = True"
| "is_unsubscribe (AddEventListener n) = False"
| "is_unsubscribe (GotoAndPlay l) = False"
| "is_unsubscribe (GotoAndStop l) = False"

text \<open>What the object at address \<open>a\<close> has been called with, once a constructor has returned.\<close>

definition calls_after :: "js_error + (helper option \<times> store) \<Rightarrow> addr \<Rightarrow> call list" where
  "calls_after r a = (case r of Inl e \<Rightarrow> [] | Inr (h, \<sigma>) \<Rightarrow> calls (\<sigma> a))"

text \<open>The object at address \<open>a\<close> after a call of \<open>setEnabled\<close> has returned.\<close>

definition object_after :: "js_error + (helper \<times> store) \<Rightarrow> addr \<Rightarrow> dobj option" where
  "object_after r a = (case r of Inl e \<Rightarrow> None | Inr (h, \<sigma>) \<Rightarrow> Some (\<sigma> a))"

text \<open>The helper that a constructor has returned (\<open>None\<close>: no field was set).\<close>

definition constructed :: "js_error + (helper option \<times> store) \<Rightarrow> helper option" where
  "constructed r = (case r of Inl e \<Rightarrow> None | Inr (h, \<sigma>) \<Rightarrow> h)"

text \<open>The object has the method that the play mode \<open>p\<close> selects.\<close>

definition can_seek :: "jsval \<Rightarrow> dobj \<Rightarrow> bool" where
  "can_seek p t = (if truthy p then has_gotoAndPlay t else has_gotoAndStop t)"

text \<open>
  The target once enabling has run on it: the pointer cursor, the four subscriptions
  and, if it has a reset hook, the hook saved and replaced.
\<close>

definition subscribed :: "dobj \<Rightarrow> dobj" where
  "subscribed obj =
     (let o1 = obj\<lparr>cursor := JStr ''pointer'',
                    calls := calls obj @
                      [AddEventListener ''rollover'', AddEventListener ''rollout'',
                       AddEventListener ''mousedown'', AddEventListener ''pressup'']\<rparr>
      in case u_reset obj of
           None \<Rightarrow> o1
         | Some f \<Rightarrow> o1\<lparr>uu_reset := Some f, u_reset := Some HelperReset\<rparr>)"

text \<open>The reset wrapper is installed on the object, over the host's function \<open>k\<close>.\<close>

definition wrapper_installed :: "dobj \<Rightarrow> nat \<Rightarrow> bool" where
  "wrapper_installed obj k = (u_reset obj = Some HelperReset \<and> uu_reset obj = Some (HostFn k))"

text \<open>
  The invariant as the specification words it, for an operation that starts from the
  helper \<open>h\<close> and the store \<open>\<sigma>\<close> and leaves the helper \<open>fst r\<close> and the store
  \<open>snd r\<close>: the target is as it was but for one label emitted, the label of the state
  that the operation leaves.
\<close>

definition follows_priority :: "helper \<Rightarrow> store \<Rightarrow> helper \<times> store \<Rightarrow> bool" where
  "follows_priority h \<sigma> r =
     (snd r (target h) = emit h \<sigma> (priority_label (fst r)) (target h))"

text \<open>
  Exactly one seek call, with the label \<open>l\<close>: the seek calls in \<open>cs\<close> are one call of
  seek-and-stop or of seek-and-play with \<open>l\<close>.
\<close>

definition one_seek :: "call list \<Rightarrow> jsval \<Rightarrow> bool" where
  "one_seek cs l = (filter is_seek cs = [GotoAndStop l] \<or> filter is_seek cs = [GotoAndPlay l])"

subsection \<open>Stub objects\<close>

text \<open>
  A movie clip with every method, a reset hook (the host's function 0) and an empty
  record of calls; and a plain object with none of the methods.
\<close>

definition clip :: dobj where
  "clip = \<lparr> has_addEventListener = True, has_removeEventListener = True,
            has_gotoAndPlay = True, has_gotoAndStop = True,
            mouseChildren = JBool True, cursor = JNull, actionsEnabled = JBool True,
            paused = JBool True, hitArea = None,
            u_reset = Some (HostFn 0), uu_reset = None, calls = [] \<rparr>"

definition plain :: dobj where
  "plain = \<lparr> has_addEventListener = False, has_removeEventListener = False,
             has_gotoAndPlay = False, has_gotoAndStop = False,
             mouseChildren = JUndefined, cursor = JUndefined, actionsEnabled = JUndefined,
             paused = JUndefined, hitArea = None,
             u_reset = None, uu_reset = None, calls = [] \<rparr>"

text \<open>A clip that can be subscribed to but is not timeline-playable.\<close>

definition still :: dobj where
  "still = clip\<lparr>has_gotoAndPlay := False, has_gotoAndStop := False\<rparr>"

definition stage :: store where
  "stage = (\<lambda>a. clip)"

definition plain_stage :: store where
  "plain_stage = (\<lambda>a. plain)"

definition still_stage :: store where
  "still_stage = (\<lambda>a. still)"

text \<open>The host's reset of a movie clip un-pauses it.\<close>

definition clip_reset :: "nat \<Rightarrow> dobj \<Rightarrow> dobj" where
  "clip_reset k obj = obj\<lparr>paused := JBool False\<rparr>"

text \<open>A helper on the object at address 0, with the default labels, in its first state.\<close>

definition fresh :: helper where
  "fresh = \<lparr> target = 0,
             overFalseLabel = JStr ''overFalse'', outFalseLabel = JStr ''outFalse'',
             downFalseLabel = JStr ''downFalse'', overTrueLabel = JStr ''overTrue'',
             outTrueLabel = JStr ''outTrue'', downTrueLabel = JStr ''downTrue'',
             play = JUndefined, isPressed = False, isOver = False,
             enabled = False, checked = False \<rparr>"

definition rollout :: event where
  "rollout = \<lparr> evt_type = JStr ''rollout'' \<rparr>"

definition mousedown :: event where
  "mousedown = \<lparr> evt_type = JStr ''mousedown'' \<rparr>"

definition pressup :: event where
  "pressup = \<lparr> evt_type = JStr ''pressup'' \<rparr>"

section \<open>Properties\<close>

subsection \<open>What each operation does\<close>

lemmas label_defs = label_of_def down_label_def over_label_def out_label_def

lemma goto_label_emit: "goto_label h \<sigma> l = emit h \<sigma> l"
  by (simp add: goto_label_def emit_def seek_or_play_def Let_def)

lemma handleEvent_mousedown:
  "handleEvent h \<sigma> mousedown =
     (h\<lparr>isPressed := True, checked := \<not> checked h\<rparr>, emit h \<sigma> (down_label h (\<not> checked h)))"
  by (simp add: handleEvent_def mousedown_def goto_label_emit emit_def down_label_def)

lemma handleEvent_pressup:
  "handleEvent h \<sigma> pressup =
     (h\<lparr>isPressed := False\<rparr>,
      emit h \<sigma> (if isOver h then over_label h (checked h) else out_label h (checked h)))"
  by (simp add: handleEvent_def pressup_def goto_label_emit emit_def label_defs)

lemma handleEvent_rollover:
  "eq_lit (evt_type e) ''rollover'' \<Longrightarrow>
   handleEvent h \<sigma> e =
     (h\<lparr>isOver := True\<rparr>,
      emit h \<sigma> (if isPressed h then down_label h (checked h) else over_label h (checked h)))"
  by (cases "evt_type e") (simp_all add: handleEvent_def goto_label_emit emit_def label_defs)

lemma handleEvent_default:
  "rollout_or_default e \<Longrightarrow>
   handleEvent h \<sigma> e =
     (h\<lparr>isOver := False\<rparr>,
      emit h \<sigma> (if isPressed h then over_label h (checked h) else out_label h (checked h)))"
  by (auto simp add: handleEvent_def rollout_or_default_def goto_label_emit emit_def
      label_defs Let_def split: if_splits)

lemma eq_lit_mousedown: "eq_lit (evt_type e) ''mousedown'' \<Longrightarrow> e = mousedown"
  by (cases e; cases "evt_type e") (simp_all add: mousedown_def)

lemma eq_lit_pressup: "eq_lit (evt_type e) ''pressup'' \<Longrightarrow> e = pressup"
  by (cases e; cases "evt_type e") (simp_all add: pressup_def)

lemma setValue_emit:
  "setValue h \<sigma> v = (h\<lparr>checked := v\<rparr>, emit h \<sigma> (label_of h v (isOver h) (isPressed h)))"
  by (simp add: setValue_def goto_label_emit emit_def label_defs)

lemma seek_or_play_can_seek:
  "can_seek p t \<Longrightarrow> seek_or_play p t l = [if truthy p then GotoAndPlay l else GotoAndStop l]"
  by (simp add: can_seek_def seek_or_play_def split: if_splits)

lemma setEnabled_on:
  "\<not> enabled h \<Longrightarrow> has_addEventListener (\<sigma> (target h)) \<Longrightarrow>
   setEnabled h \<sigma> True = Inr (h\<lparr>enabled := True\<rparr>, \<sigma>(target h := subscribed (\<sigma> (target h))))"
  by (simp add: setEnabled_def subscribed_def addEventListener_def Let_def split: option.split)

lemma subscribed_fields:
  "has_gotoAndStop (subscribed obj) = has_gotoAndStop obj"
  "calls (subscribed obj) = calls obj @
      [AddEventListener ''rollover'', AddEventListener ''rollout'',
       AddEventListener ''mousedown'', AddEventListener ''pressup'']"
  "cursor (subscribed obj) = JStr ''pointer''"
  "paused (subscribed obj) = paused obj"
  "u_reset (subscribed obj) = (case u_reset obj of None \<Rightarrow> None | Some f \<Rightarrow> Some HelperReset)"
  "uu_reset (subscribed obj) = (case u_reset obj of None \<Rightarrow> uu_reset obj | Some f \<Rightarrow> Some f)"
  by (simp_all add: subscribed_def Let_def split: option.split)

lemma eq_null_iff: "eq_null a \<longleftrightarrow> a = JUndefined \<or> a = JNull"
  by (cases a) simp_all

lemma install_hit_calls:
  "calls (install_hit \<sigma> t ha hl t) =
     calls (\<sigma> t) @ (if ha = Some t \<and> truthy hl \<and> has_gotoAndStop (\<sigma> t)
                      then [GotoAndStop hl] else [])"
  by (cases ha) (simp_all add: install_hit_def Let_def)

text \<open>The constructor on a target that can be subscribed to: the helper and the store it leaves.\<close>

lemma constructor_result:
  assumes "has_addEventListener (\<sigma> t)"
  shows "RadioButtonHelper \<sigma> t a1 a2 a3 a4 a5 a6 p ha hl =
     Inr (Some ((init_fields t a1 a2 a3 a4 a5 a6 p)\<lparr>enabled := True\<rparr>),
          install_hit
            (emit (init_fields t a1 a2 a3 a4 a5 a6 p)
              (\<sigma>(t := subscribed ((\<sigma> t)\<lparr>mouseChildren := JBool False\<rparr>)))
              (if eq_null a1 then JStr ''outFalse'' else a1))
            t ha hl)"
proof -
  let ?h0 = "init_fields t a1 a2 a3 a4 a5 a6 p"
  let ?\<sigma>1 = "\<sigma>(t := (\<sigma> t)\<lparr>mouseChildren := JBool False\<rparr>)"
  have f: "target ?h0 = t" "\<not> enabled ?h0" "\<not> checked ?h0" "\<not> isPressed ?h0" "\<not> isOver ?h0"
    "outFalseLabel ?h0 = (if eq_null a1 then JStr ''outFalse'' else a1)" "play ?h0 = p"
    by (simp_all add: init_fields_def)
  have en: "setEnabled ?h0 ?\<sigma>1 True =
      Inr (?h0\<lparr>enabled := True\<rparr>, \<sigma>(t := subscribed ((\<sigma> t)\<lparr>mouseChildren := JBool False\<rparr>)))"
    using assms f by (simp add: setEnabled_on)
  have dflt: "rollout_or_default \<lparr>evt_type = JUndefined\<rparr>"
    by (simp add: rollout_or_default_def)
  have ev: "handleEvent (?h0\<lparr>enabled := True\<rparr>) \<sigma>' \<lparr>evt_type = JUndefined\<rparr> =
      (?h0\<lparr>enabled := True\<rparr>, emit ?h0 \<sigma>' (if eq_null a1 then JStr ''outFalse'' else a1))" for \<sigma>'
    using f by (simp add: handleEvent_default [OF dflt] out_label_def emit_def)
  show ?thesis
    unfolding RadioButtonHelper_def Let_def
    using assms by (simp add: en ev)
qed

text \<open>The calls that the target has received when the constructor returns.\<close>

lemma constructor_calls:
  assumes "has_addEventListener (\<sigma> t)"
  shows "calls_after (RadioButtonHelper \<sigma> t a1 a2 a3 a4 a5 a6 p ha hl) t =
     calls (\<sigma> t) @
       [AddEventListener ''rollover'', AddEventListener ''rollout'',
        AddEventListener ''mousedown'', AddEventListener ''pressup'']
       @ seek_or_play p (\<sigma> t) (if eq_null a1 then JStr ''outFalse'' else a1)
       @ (if ha = Some t \<and> truthy hl \<and> has_gotoAndStop (\<sigma> t) then [GotoAndStop hl] else [])"
proof -
  let ?h0 = "init_fields t a1 a2 a3 a4 a5 a6 p"
  let ?s = "subscribed ((\<sigma> t)\<lparr>mouseChildren := JBool False\<rparr>)"
  have f: "target ?h0 = t" "play ?h0 = p" by (simp_all add: init_fields_def)
  have sp: "seek_or_play p ?s l = seek_or_play p (\<sigma> t) l" for l
    by (simp add: seek_or_play_def subscribed_def Let_def split: option.split)
  have e: "emit ?h0 (\<sigma>(t := ?s)) l t = ?s\<lparr>calls := calls ?s @ seek_or_play p (\<sigma> t) l\<rparr>" for l
    by (simp add: emit_def f sp)
  show ?thesis
    using assms
    by (simp add: constructor_result calls_after_def install_hit_calls e subscribed_fields)
qed

subsection \<open>The state machine\<close>

text \<open>
  C1, as the specification states it, does not hold: a helper that is pressed and
  receives a rollout emits the over label, while the state it is left in (pressed, not
  hovered) has the down label by the priority rule.
\<close>

theorem pressed_rollout_breaks_priority:
  "\<not> follows_priority (fresh\<lparr>isPressed := True\<rparr>) stage
       (handleEvent (fresh\<lparr>isPressed := True\<rparr>) stage rollout)
   \<and> calls (snd (handleEvent (fresh\<lparr>isPressed := True\<rparr>) stage rollout) 0)
       = [GotoAndStop (JStr ''overFalse'')]
   \<and> priority_label (fst (handleEvent (fresh\<lparr>isPressed := True\<rparr>) stage rollout))
       = JStr ''downFalse''"
proof -
  have t: "target (fresh\<lparr>isPressed := True\<rparr>) = 0" by (simp add: fresh_def)
  have log: "calls (snd (handleEvent (fresh\<lparr>isPressed := True\<rparr>) stage rollout) 0)
       = [GotoAndStop (JStr ''overFalse'')]"
    by (simp add: handleEvent_def goto_label_def fresh_def stage_def clip_def rollout_def)
  have lab: "priority_label (fst (handleEvent (fresh\<lparr>isPressed := True\<rparr>) stage rollout))
       = JStr ''downFalse''"
    by (simp add: handleEvent_def priority_label_def label_defs fresh_def rollout_def)
  have "calls (emit (fresh\<lparr>isPressed := True\<rparr>) stage (JStr ''downFalse'') 0)
       = [GotoAndStop (JStr ''downFalse'')]"
    by (simp add: emit_def seek_or_play_def fresh_def stage_def clip_def)
  with log lab have "\<not> follows_priority (fresh\<lparr>isPressed := True\<rparr>) stage
       (handleEvent (fresh\<lparr>isPressed := True\<rparr>) stage rollout)"
    unfolding follows_priority_def t by auto
  with log lab show ?thesis by simp
qed

text \<open>
  C1, amended: after an event or after \<open>setValue\<close>, the emitted label is the label that
  the priority rule (pressed, then hovered, then idle, split by checked) gives to the
  resulting state, except after a rollout or an unrecognised event that leaves the
  helper pressed, where it is the over label of the checked value. The call made at
  construction time handles an event without type on a helper that is not pressed, and
  follows the priority rule.
\<close>

theorem label_after_operation:
  "(let h' = fst (handleEvent h \<sigma> e) in
      snd (handleEvent h \<sigma> e) =
        emit h \<sigma> (if rollout_or_default e \<and> isPressed h'
                   then over_label h' (checked h') else priority_label h'))
   \<and> (let h' = fst (setValue h \<sigma> v) in
        snd (setValue h \<sigma> v) = emit h \<sigma> (priority_label h'))
   \<and> (let h' = fst (handleEvent (h\<lparr>isPressed := False\<rparr>) \<sigma> \<lparr>evt_type = JUndefined\<rparr>) in
        snd (handleEvent (h\<lparr>isPressed := False\<rparr>) \<sigma> \<lparr>evt_type = JUndefined\<rparr>) =
          emit h \<sigma> (priority_label h'))"
proof -
  have ev: "snd (handleEvent h \<sigma> e) =
        emit h \<sigma> (if rollout_or_default e \<and> isPressed (fst (handleEvent h \<sigma> e))
                   then over_label (fst (handleEvent h \<sigma> e)) (checked (fst (handleEvent h \<sigma> e)))
                   else priority_label (fst (handleEvent h \<sigma> e)))"
  proof (cases "rollout_or_default e")
    case True
    then show ?thesis
      by (simp add: handleEvent_default priority_label_def label_defs)
  next
    case False
    then consider "eq_lit (evt_type e) ''mousedown''" | "eq_lit (evt_type e) ''pressup''"
      | "eq_lit (evt_type e) ''rollover''"
      by (auto simp add: rollout_or_default_def split: if_splits)
    then show ?thesis
    proof cases
      case 1
      then have "e = mousedown" by (rule eq_lit_mousedown)
      with False show ?thesis
        by (simp add: handleEvent_mousedown priority_label_def label_defs)
    next
      case 2
      then have "e = pressup" by (rule eq_lit_pressup)
      with False show ?thesis
        by (simp add: handleEvent_pressup priority_label_def label_defs)
    next
      case 3
      with False show ?thesis
        by (simp add: handleEvent_rollover priority_label_def label_defs)
    qed
  qed
  have sv: "snd (setValue h \<sigma> v) = emit h \<sigma> (priority_label (fst (setValue h \<sigma> v)))"
    by (simp add: setValue_emit priority_label_def label_defs)
  have "rollout_or_default \<lparr>evt_type = JUndefined\<rparr>"
    by (simp add: rollout_or_default_def)
  then have init:
    "snd (handleEvent (h\<lparr>isPressed := False\<rparr>) \<sigma> \<lparr>evt_type = JUndefined\<rparr>) =
       emit h \<sigma> (priority_label
         (fst (handleEvent (h\<lparr>isPressed := False\<rparr>) \<sigma> \<lparr>evt_type = JUndefined\<rparr>)))"
    by (simp add: handleEvent_default priority_label_def label_defs emit_def)
  from ev sv init show ?thesis by (simp add: Let_def)
qed

text \<open>
  C2: a pressed helper that handles a rollout, or an event of any type that is not one
  of the three others, is left not hovered, with nothing else changed, and emits the
  over label of its checked value.
\<close>

theorem rollout_while_pressed:
  assumes "isPressed h" and "rollout_or_default e"
  shows "handleEvent h \<sigma> e = (h\<lparr>isOver := False\<rparr>, emit h \<sigma> (over_label h (checked h)))"
  using assms by (simp add: handleEvent_default)

theorem rollout_while_pressed_witness:
  "isPressed (fresh\<lparr>isPressed := True, checked := True\<rparr>) \<and> rollout_or_default rollout
   \<and> rollout_or_default \<lparr>evt_type = JStr ''click''\<rparr>
   \<and> handleEvent (fresh\<lparr>isPressed := True, checked := True\<rparr>) stage rollout =
       (fresh\<lparr>isPressed := True, checked := True, isOver := False\<rparr>,
        emit (fresh\<lparr>isPressed := True, checked := True\<rparr>) stage (JStr ''overTrue''))
   \<and> calls (snd (handleEvent (fresh\<lparr>isPressed := True, checked := True\<rparr>) stage rollout) 0)
        = [GotoAndStop (JStr ''overTrue'')]
   \<and> calls (snd (handleEvent (fresh\<lparr>isPressed := True, isOver := True\<rparr>) stage
               \<lparr>evt_type = JStr ''click''\<rparr>) 0)
        = [GotoAndStop (JStr ''overFalse'')]"
proof -
  have p1: "isPressed (fresh\<lparr>isPressed := True, checked := True\<rparr>)" by simp
  have p2: "isPressed (fresh\<lparr>isPressed := True, isOver := True\<rparr>)" by simp
  have r1: "rollout_or_default rollout" by (simp add: rollout_or_default_def rollout_def)
  have r2: "rollout_or_default \<lparr>evt_type = JStr ''click''\<rparr>"
    by (simp add: rollout_or_default_def)
  show ?thesis
    using rollout_while_pressed [OF p1 r1, of stage] rollout_while_pressed [OF p2 r2, of stage]
      r1 r2
    by (simp add: fresh_def over_label_def emit_def seek_or_play_def stage_def clip_def)
qed

text \<open>
  C3: a mousedown leaves the helper pressed with checked flipped, and emits the down
  label of the new checked value; the pressup that follows leaves it not pressed, with
  checked as the mousedown left it, and emits the over label of that value if the
  helper is hovered and its out label if not.
\<close>

theorem mousedown_then_pressup:
  "(let (h1, \<sigma>1) = handleEvent h \<sigma> mousedown;
        (h2, \<sigma>2) = handleEvent h1 \<sigma>1 pressup
    in h1 = h\<lparr>isPressed := True, checked := \<not> checked h\<rparr>
       \<and> \<sigma>1 = emit h \<sigma> (down_label h (\<not> checked h))
       \<and> h2 = h\<lparr>isPressed := False, checked := \<not> checked h\<rparr>
       \<and> \<sigma>2 = emit h \<sigma>1 (if isOver h then over_label h (\<not> checked h)
                            else out_label h (\<not> checked h)))"
  by (simp add: handleEvent_mousedown handleEvent_pressup emit_def label_defs)

theorem mousedown_then_pressup_witness:
  "calls (snd (handleEvent (fst (handleEvent fresh stage mousedown))
                 (snd (handleEvent fresh stage mousedown)) pressup) 0)
     = [GotoAndStop (JStr ''downTrue''), GotoAndStop (JStr ''outTrue'')]
   \<and> calls (snd (handleEvent (fst (handleEvent (fresh\<lparr>checked := True, isOver := True\<rparr>)
                                     stage mousedown))
                 (snd (handleEvent (fresh\<lparr>checked := True, isOver := True\<rparr>) stage mousedown))
                 pressup) 0)
     = [GotoAndStop (JStr ''downFalse''), GotoAndStop (JStr ''overFalse'')]"
  using mousedown_then_pressup [of fresh stage]
    mousedown_then_pressup [of "fresh\<lparr>checked := True, isOver := True\<rparr>" stage]
  by (simp add: handleEvent_mousedown handleEvent_pressup fresh_def label_defs emit_def
      seek_or_play_def stage_def clip_def)

subsection \<open>The accessors\<close>

text \<open>
  C4: \<open>setValue v\<close> writes \<open>v\<close> to checked and nothing else in the helper (pressed,
  hovered and enabled keep their values), and emits one label, computed from \<open>v\<close> and
  the current pressed and hovered flags by the priority rule. No object receives a
  subscribe or an unsubscribe call. A target that has the method the play mode selects
  receives exactly that one call.
\<close>

theorem setValue_frame:
  "setValue h \<sigma> v = (h\<lparr>checked := v\<rparr>, emit h \<sigma> (label_of h v (isOver h) (isPressed h)))
   \<and> isPressed (fst (setValue h \<sigma> v)) = isPressed h
   \<and> isOver (fst (setValue h \<sigma> v)) = isOver h
   \<and> enabled (fst (setValue h \<sigma> v)) = enabled h
   \<and> filter is_subscribe (calls (snd (setValue h \<sigma> v) a)) = filter is_subscribe (calls (\<sigma> a))
   \<and> filter is_unsubscribe (calls (snd (setValue h \<sigma> v) a))
       = filter is_unsubscribe (calls (\<sigma> a))
   \<and> (can_seek (play h) (\<sigma> (target h)) \<longrightarrow>
        calls (snd (setValue h \<sigma> v) (target h)) =
          calls (\<sigma> (target h)) @
            [if truthy (play h) then GotoAndPlay (label_of h v (isOver h) (isPressed h))
             else GotoAndStop (label_of h v (isOver h) (isPressed h))])"
proof -
  have "filter is_subscribe (seek_or_play p t l) = []"
    and "filter is_unsubscribe (seek_or_play p t l) = []" for p t l
    by (simp_all add: seek_or_play_def)
  then show ?thesis
    by (simp add: setValue_emit emit_def seek_or_play_can_seek)
qed

theorem setValue_frame_witness:
  "can_seek (play fresh) (stage (target fresh))
   \<and> setValue fresh stage True = (fresh\<lparr>checked := True\<rparr>, emit fresh stage (JStr ''outTrue''))
   \<and> calls (snd (setValue fresh stage True) 0) = [GotoAndStop (JStr ''outTrue'')]
   \<and> calls (snd (setValue (fresh\<lparr>isPressed := True, isOver := True\<rparr>) stage False) 0)
       = [GotoAndStop (JStr ''downFalse'')]"
proof -
  have c: "can_seek (play fresh) (stage (target fresh))"
    by (simp add: can_seek_def fresh_def stage_def clip_def)
  have l1: "label_of fresh True (isOver fresh) (isPressed fresh) = JStr ''outTrue''"
    by (simp add: fresh_def label_defs)
  have e1: "setValue fresh stage True
      = (fresh\<lparr>checked := True\<rparr>, emit fresh stage (JStr ''outTrue''))"
    using setValue_frame [of fresh stage True 0] by (simp only: l1)
  have c1: "calls (emit fresh stage (JStr ''outTrue'') 0) = [GotoAndStop (JStr ''outTrue'')]"
    by (simp add: emit_def seek_or_play_def fresh_def stage_def clip_def)
  let ?g = "fresh\<lparr>isPressed := True, isOver := True\<rparr>"
  have l2: "label_of ?g False (isOver ?g) (isPressed ?g) = JStr ''downFalse''"
    by (simp add: fresh_def label_defs)
  have e2: "setValue ?g stage False = (?g\<lparr>checked := False\<rparr>, emit ?g stage (JStr ''downFalse''))"
    using setValue_frame [of ?g stage False 0] by (simp only: l2)
  have c2: "calls (emit ?g stage (JStr ''downFalse'') 0) = [GotoAndStop (JStr ''downFalse'')]"
    by (simp add: emit_def seek_or_play_def fresh_def stage_def clip_def)
  from c e1 c1 e2 c2 show ?thesis by simp
qed

text \<open>C10: after \<open>setValue v\<close>, \<open>getValue\<close> returns \<open>v\<close>, whatever the state before.\<close>

theorem setValue_getValue: "getValue (fst (setValue h \<sigma> v)) = v"
  by (simp add: getValue_def setValue_def Let_def)

subsection \<open>Enabling\<close>

text \<open>
  C5: setting \<open>enabled\<close> to the value it has changes nothing. Setting it to true twice
  in a row on a helper that is not enabled is the same as setting it once: the target
  receives the four subscriptions once, the cursor hint is the pointer, and the reset
  slot, if the target has a hook, holds the wrapper over the saved hook. Setting it to
  false twice on a helper that is not enabled makes no call at all.
\<close>

theorem setEnabled_idempotent:
  "setEnabled h \<sigma> (enabled h) = Inr (h, \<sigma>)
   \<and> (\<not> enabled h \<and> has_addEventListener (\<sigma> (target h)) \<longrightarrow>
        setEnabled_twice h \<sigma> True = setEnabled h \<sigma> True
        \<and> setEnabled h \<sigma> True =
            Inr (h\<lparr>enabled := True\<rparr>, \<sigma>(target h := subscribed (\<sigma> (target h))))
        \<and> calls (subscribed (\<sigma> (target h))) =
            calls (\<sigma> (target h)) @
              [AddEventListener ''rollover'', AddEventListener ''rollout'',
               AddEventListener ''mousedown'', AddEventListener ''pressup'']
        \<and> cursor (subscribed (\<sigma> (target h))) = JStr ''pointer''
        \<and> u_reset (subscribed (\<sigma> (target h))) =
            (case u_reset (\<sigma> (target h)) of None \<Rightarrow> None | Some f \<Rightarrow> Some HelperReset)
        \<and> uu_reset (subscribed (\<sigma> (target h))) =
            (case u_reset (\<sigma> (target h)) of
               None \<Rightarrow> uu_reset (\<sigma> (target h))
             | Some f \<Rightarrow> Some f))
   \<and> (\<not> enabled h \<longrightarrow> setEnabled_twice h \<sigma> False = Inr (h, \<sigma>))"
proof -
  have same: "setEnabled h \<sigma> (enabled h) = Inr (h, \<sigma>)" for h \<sigma>
    by (simp add: setEnabled_def)
  have on: "setEnabled_twice h \<sigma> True = setEnabled h \<sigma> True"
    if "\<not> enabled h" "has_addEventListener (\<sigma> (target h))"
    using that same [of "h\<lparr>enabled := True\<rparr>"]
    by (simp add: setEnabled_twice_def setEnabled_on)
  have off: "setEnabled_twice h \<sigma> False = Inr (h, \<sigma>)" if "\<not> enabled h"
    using that same [of h \<sigma>] by (simp add: setEnabled_twice_def)
  from same on off show ?thesis
    by (simp add: setEnabled_on subscribed_fields)
qed

theorem setEnabled_idempotent_witness:
  "\<not> enabled fresh \<and> has_addEventListener (stage (target fresh))
   \<and> setEnabled_twice fresh stage True = setEnabled fresh stage True
   \<and> map_option calls (object_after (setEnabled_twice fresh stage True) 0) =
       Some [AddEventListener ''rollover'', AddEventListener ''rollout'',
             AddEventListener ''mousedown'', AddEventListener ''pressup'']
   \<and> map_option u_reset (object_after (setEnabled_twice fresh stage True) 0)
       = Some (Some HelperReset)
   \<and> map_option uu_reset (object_after (setEnabled_twice fresh stage True) 0)
       = Some (Some (HostFn 0))
   \<and> map_option cursor (object_after (setEnabled_twice fresh stage True) 0)
       = Some (JStr ''pointer'')
   \<and> setEnabled_twice fresh stage False = Inr (fresh, stage)"
proof -
  have a: "\<not> enabled fresh" "has_addEventListener (stage (target fresh))" "target fresh = 0"
    by (simp_all add: fresh_def stage_def clip_def)
  have s: "stage 0 = clip" by (simp add: stage_def)
  have c: "u_reset clip = Some (HostFn 0)" "calls clip = []" by (simp_all add: clip_def)
  show ?thesis
    using a setEnabled_idempotent [of fresh stage]
    by (simp add: object_after_def s c)
qed

text \<open>
  C9: on an object on which the reset wrapper is installed over a hook of the host,
  calling reset runs that hook and then puts the paused flag back to the value it had
  before the call, whatever that value is. Enabling a helper on a target with a reset
  hook installs the wrapper so. (The hook of the host is taken to return normally.)
\<close>

theorem reset_wrapper_keeps_paused:
  "(wrapper_installed obj k \<longrightarrow>
      call_reset host obj = Inr ((host k obj)\<lparr>paused := paused obj\<rparr>))
   \<and> (\<not> enabled h \<and> has_addEventListener (\<sigma> (target h))
        \<and> u_reset (\<sigma> (target h)) = Some (HostFn k) \<longrightarrow>
        (\<exists>h1 \<sigma>1 obj'. setEnabled h \<sigma> True = Inr (h1, \<sigma>1)
           \<and> wrapper_installed (\<sigma>1 (target h)) k
           \<and> paused (\<sigma>1 (target h)) = paused (\<sigma> (target h))
           \<and> call_reset host (\<sigma>1 (target h)) = Inr obj'
           \<and> obj' = (host k (\<sigma>1 (target h)))\<lparr>paused := paused (\<sigma> (target h))\<rparr>
           \<and> paused obj' = paused (\<sigma> (target h))))"
proof -
  have w: "call_reset host obj = Inr ((host k obj)\<lparr>paused := paused obj\<rparr>)"
    if "wrapper_installed obj k" for obj
    using that by (simp add: wrapper_installed_def call_reset_def p_reset_def)
  have i: "wrapper_installed (subscribed obj) k \<and> paused (subscribed obj) = paused obj"
    if "u_reset obj = Some (HostFn k)" for obj
    using that by (simp add: wrapper_installed_def subscribed_def)
  show ?thesis
  proof (intro conjI impI)
    assume "wrapper_installed obj k"
    then show "call_reset host obj = Inr ((host k obj)\<lparr>paused := paused obj\<rparr>)" by (rule w)
  next
    assume a: "\<not> enabled h \<and> has_addEventListener (\<sigma> (target h))
        \<and> u_reset (\<sigma> (target h)) = Some (HostFn k)"
    let ?s = "subscribed (\<sigma> (target h))"
    from a have e: "setEnabled h \<sigma> True = Inr (h\<lparr>enabled := True\<rparr>, \<sigma>(target h := ?s))"
      by (simp add: setEnabled_on)
    from a have j: "wrapper_installed ?s k" "paused ?s = paused (\<sigma> (target h))"
      using i [of "\<sigma> (target h)"] by simp_all
    from w [OF j(1)] j(2)
    have c: "call_reset host ?s = Inr ((host k ?s)\<lparr>paused := paused (\<sigma> (target h))\<rparr>)" by simp
    show "\<exists>h1 \<sigma>1 obj'. setEnabled h \<sigma> True = Inr (h1, \<sigma>1)
           \<and> wrapper_installed (\<sigma>1 (target h)) k
           \<and> paused (\<sigma>1 (target h)) = paused (\<sigma> (target h))
           \<and> call_reset host (\<sigma>1 (target h)) = Inr obj'
           \<and> obj' = (host k (\<sigma>1 (target h)))\<lparr>paused := paused (\<sigma> (target h))\<rparr>
           \<and> paused obj' = paused (\<sigma> (target h))"
      using e j c by simp
  qed
qed

theorem reset_wrapper_keeps_paused_witness:
  "\<not> enabled fresh \<and> has_addEventListener (stage (target fresh))
   \<and> u_reset (stage (target fresh)) = Some (HostFn 0)
   \<and> paused (stage (target fresh)) = JBool True
   \<and> paused (clip_reset 0 (stage (target fresh))) = JBool False
   \<and> (\<exists>h1 \<sigma>1 obj'. setEnabled fresh stage True = Inr (h1, \<sigma>1)
         \<and> wrapper_installed (\<sigma>1 (target fresh)) 0
         \<and> call_reset clip_reset (\<sigma>1 (target fresh)) = Inr obj'
         \<and> paused obj' = JBool True)"
proof -
  have a: "\<not> enabled fresh" "has_addEventListener (stage (target fresh))"
    "u_reset (stage (target fresh)) = Some (HostFn 0)"
    "paused (stage (target fresh)) = JBool True"
    "paused (clip_reset 0 (stage (target fresh))) = JBool False"
    by (simp_all add: fresh_def stage_def clip_def clip_reset_def)
  from a reset_wrapper_keeps_paused [of "stage (target fresh)" 0 clip_reset fresh stage]
  have "\<exists>h1 \<sigma>1 obj'. setEnabled fresh stage True = Inr (h1, \<sigma>1)
         \<and> wrapper_installed (\<sigma>1 (target fresh)) 0
         \<and> call_reset clip_reset (\<sigma>1 (target fresh)) = Inr obj'
         \<and> paused obj' = JBool True"
    by auto
  with a show ?thesis by simp
qed

subsection \<open>The constructor\<close>

text \<open>
  C6: on a target that can be subscribed to, the constructor returns a helper whose six
  labels are the six label arguments, each replaced by its fixed string exactly when it
  is \<open>undefined\<close> or \<open>null\<close>; so an empty string or the number 0 is kept.
\<close>

theorem constructor_label_defaults:
  assumes "has_addEventListener (\<sigma> t)"
  shows "\<exists>h \<sigma>'. RadioButtonHelper \<sigma> t a1 a2 a3 a4 a5 a6 p ha hl = Inr (Some h, \<sigma>')
     \<and> outFalseLabel h = (if a1 = JUndefined \<or> a1 = JNull then JStr ''outFalse'' else a1)
     \<and> overFalseLabel h = (if a2 = JUndefined \<or> a2 = JNull then JStr ''overFalse'' else a2)
     \<and> downFalseLabel h = (if a3 = JUndefined \<or> a3 = JNull then JStr ''downFalse'' else a3)
     \<and> outTrueLabel h = (if a4 = JUndefined \<or> a4 = JNull then JStr ''outTrue'' else a4)
     \<and> overTrueLabel h = (if a5 = JUndefined \<or> a5 = JNull then JStr ''overTrue'' else a5)
     \<and> downTrueLabel h = (if a6 = JUndefined \<or> a6 = JNull then JStr ''downTrue'' else a6)"
  using assms constructor_result [of \<sigma> t a1 a2 a3 a4 a5 a6 p ha hl]
  by (simp add: init_fields_def eq_null_iff)

theorem constructor_label_defaults_witness:
  "has_addEventListener (stage 0)
   \<and> map_option outFalseLabel (constructed (RadioButtonHelper stage 0
        (JStr []) (JNum 0) JNull JUndefined (JStr ''on'') (JNum 7) JUndefined None JUndefined))
       = Some (JStr [])
   \<and> map_option overFalseLabel (constructed (RadioButtonHelper stage 0
        (JStr []) (JNum 0) JNull JUndefined (JStr ''on'') (JNum 7) JUndefined None JUndefined))
       = Some (JNum 0)
   \<and> map_option downFalseLabel (constructed (RadioButtonHelper stage 0
        (JStr []) (JNum 0) JNull JUndefined (JStr ''on'') (JNum 7) JUndefined None JUndefined))
       = Some (JStr ''downFalse'')
   \<and> map_option outTrueLabel (constructed (RadioButtonHelper stage 0
        (JStr []) (JNum 0) JNull JUndefined (JStr ''on'') (JNum 7) JUndefined None JUndefined))
       = Some (JStr ''outTrue'')
   \<and> map_option overTrueLabel (constructed (RadioButtonHelper stage 0
        (JStr []) (JNum 0) JNull JUndefined (JStr ''on'') (JNum 7) JUndefined None JUndefined))
       = Some (JStr ''on'')
   \<and> map_option downTrueLabel (constructed (RadioButtonHelper stage 0
        (JStr []) (JNum 0) JNull JUndefined (JStr ''on'') (JNum 7) JUndefined None JUndefined))
       = Some (JNum 7)"
proof -
  have a: "has_addEventListener (stage 0)" by (simp add: stage_def clip_def)
  from a constructor_label_defaults [of stage 0 "JStr []" "JNum 0" JNull JUndefined
      "JStr ''on''" "JNum 7" JUndefined None JUndefined]
  obtain h \<sigma>' where "RadioButtonHelper stage 0
        (JStr []) (JNum 0) JNull JUndefined (JStr ''on'') (JNum 7) JUndefined None JUndefined
        = Inr (Some h, \<sigma>')"
    and "outFalseLabel h = JStr []" and "overFalseLabel h = JNum 0"
    and "downFalseLabel h = JStr ''downFalse''" and "outTrueLabel h = JStr ''outTrue''"
    and "overTrueLabel h = JStr ''on''" and "downTrueLabel h = JNum 7"
    by auto
  with a show ?thesis by (simp add: constructed_def)
qed

text \<open>
  C7, as the specification states it, does not hold: with the target itself as hit
  area and a hit label, as the documentation of the constructor allows, the target
  receives two seek calls, the second with the hit label.
\<close>

theorem constructor_two_seek_calls:
  "calls_after (RadioButtonHelper stage 0 JUndefined JUndefined JUndefined JUndefined JUndefined
        JUndefined (JBool False) (Some 0) (JStr ''hit'')) 0
     = [AddEventListener ''rollover'', AddEventListener ''rollout'',
        AddEventListener ''mousedown'', AddEventListener ''pressup'',
        GotoAndStop (JStr ''outFalse''), GotoAndStop (JStr ''hit'')]
   \<and> \<not> one_seek (calls_after (RadioButtonHelper stage 0 JUndefined JUndefined JUndefined
        JUndefined JUndefined JUndefined (JBool False) (Some 0) (JStr ''hit'')) 0)
        (JStr ''outFalse'')"
proof -
  have a: "has_addEventListener (stage 0)" "has_gotoAndStop (stage 0)" "calls (stage 0) = []"
    by (simp_all add: stage_def clip_def)
  have "calls_after (RadioButtonHelper stage 0 JUndefined JUndefined JUndefined JUndefined
        JUndefined JUndefined (JBool False) (Some 0) (JStr ''hit'')) 0
     = [AddEventListener ''rollover'', AddEventListener ''rollout'',
        AddEventListener ''mousedown'', AddEventListener ''pressup'',
        GotoAndStop (JStr ''outFalse''), GotoAndStop (JStr ''hit'')]"
    using a by (simp add: constructor_calls seek_or_play_def)
  then show ?thesis by (simp add: one_seek_def)
qed

text \<open>
  C7, amended: constructing a helper with all six labels defaulted, on a target that
  can be subscribed to, emits the label "outFalse" once, right after the four
  subscriptions. It is the only seek call that the target receives, unless the hit
  area is the target itself and a hit label is given: then the seek-and-stop call with
  the hit label follows it. On a target that has the method the play mode selects, and
  with no such hit area, the calls of the construction hold exactly one seek call, with
  the label "outFalse".
\<close>

theorem constructor_seek_calls:
  assumes "has_addEventListener (\<sigma> t)"
    and "eq_null a1" "eq_null a2" "eq_null a3" "eq_null a4" "eq_null a5" "eq_null a6"
  shows "\<exists>new. calls_after (RadioButtonHelper \<sigma> t a1 a2 a3 a4 a5 a6 p ha hl) t
                 = calls (\<sigma> t) @ new
     \<and> filter is_seek new =
         seek_or_play p (\<sigma> t) (JStr ''outFalse'')
         @ (if ha = Some t \<and> truthy hl \<and> has_gotoAndStop (\<sigma> t) then [GotoAndStop hl] else [])
     \<and> (can_seek p (\<sigma> t) \<and> (ha = Some t \<longrightarrow> \<not> truthy hl)
          \<longrightarrow> one_seek new (JStr ''outFalse''))"
proof -
  let ?new = "[AddEventListener ''rollover'', AddEventListener ''rollout'',
        AddEventListener ''mousedown'', AddEventListener ''pressup'']
       @ seek_or_play p (\<sigma> t) (JStr ''outFalse'')
       @ (if ha = Some t \<and> truthy hl \<and> has_gotoAndStop (\<sigma> t) then [GotoAndStop hl] else [])"
  have s: "filter is_seek (seek_or_play p (\<sigma> t) l) = seek_or_play p (\<sigma> t) l" for l
    by (simp add: seek_or_play_def)
  have 1: "calls_after (RadioButtonHelper \<sigma> t a1 a2 a3 a4 a5 a6 p ha hl) t = calls (\<sigma> t) @ ?new"
    using assms(1,2) by (simp add: constructor_calls)
  have 2: "filter is_seek ?new = seek_or_play p (\<sigma> t) (JStr ''outFalse'')
         @ (if ha = Some t \<and> truthy hl \<and> has_gotoAndStop (\<sigma> t) then [GotoAndStop hl] else [])"
    by (simp add: s)
  have 3: "one_seek ?new (JStr ''outFalse'')"
    if "can_seek p (\<sigma> t) \<and> (ha = Some t \<longrightarrow> \<not> truthy hl)"
    using that by (auto simp add: one_seek_def seek_or_play_can_seek)
  from 1 2 3 show ?thesis by blast
qed

theorem constructor_seek_calls_witness:
  "has_addEventListener (stage 0) \<and> eq_null JUndefined \<and> eq_null JNull
   \<and> can_seek JUndefined (stage 0)
   \<and> calls_after (RadioButtonHelper stage 0 JUndefined JNull JUndefined JNull JUndefined JNull
        JUndefined (Some 1) (JStr ''hit'')) 0
       = [AddEventListener ''rollover'', AddEventListener ''rollout'',
          AddEventListener ''mousedown'', AddEventListener ''pressup'',
          GotoAndStop (JStr ''outFalse'')]
   \<and> one_seek (calls_after (RadioButtonHelper stage 0 JUndefined JNull JUndefined JNull
        JUndefined JNull JUndefined (Some 1) (JStr ''hit'')) 0) (JStr ''outFalse'')
   \<and> filter is_seek (calls_after (RadioButtonHelper still_stage 0 JUndefined JNull JUndefined
        JNull JUndefined JNull JUndefined None JUndefined) 0) = []"
proof -
  have a: "has_addEventListener (stage 0)" "eq_null JUndefined" "eq_null JNull"
    by (simp_all add: stage_def clip_def)
  have d: "filter is_seek (calls_after (RadioButtonHelper still_stage 0 JUndefined JNull
        JUndefined JNull JUndefined JNull JUndefined None JUndefined) 0) = []"
  proof -
    have "has_addEventListener (still_stage 0)" "calls (still_stage 0) = []"
      "\<not> has_gotoAndStop (still_stage 0)"
      by (simp_all add: still_stage_def still_def clip_def)
    then show ?thesis by (simp add: constructor_calls seek_or_play_def)
  qed
  have b: "can_seek JUndefined (stage 0)" "calls (stage 0) = []" "has_gotoAndStop (stage 0)"
    by (simp_all add: can_seek_def stage_def clip_def)
  from a constructor_seek_calls [of stage 0 JUndefined JNull JUndefined JNull JUndefined JNull
      JUndefined "Some 1" "JStr ''hit''"]
  obtain new where n: "calls_after (RadioButtonHelper stage 0 JUndefined JNull JUndefined JNull
        JUndefined JNull JUndefined (Some 1) (JStr ''hit'')) 0 = calls (stage 0) @ new"
    and o: "can_seek JUndefined (stage 0) \<and> (Some (1::nat) = Some 0 \<longrightarrow> \<not> truthy (JStr ''hit''))
          \<longrightarrow> one_seek new (JStr ''outFalse'')"
    by blast
  from o b have "one_seek new (JStr ''outFalse'')" by simp
  with n b have os: "one_seek (calls_after (RadioButtonHelper stage 0 JUndefined JNull JUndefined
        JNull JUndefined JNull JUndefined (Some 1) (JStr ''hit'')) 0) (JStr ''outFalse'')"
    by simp
  have c: "calls_after (RadioButtonHelper stage 0 JUndefined JNull JUndefined JNull JUndefined
        JNull JUndefined (Some 1) (JStr ''hit'')) 0
       = [AddEventListener ''rollover'', AddEventListener ''rollout'',
          AddEventListener ''mousedown'', AddEventListener ''pressup'',
          GotoAndStop (JStr ''outFalse'')]"
    using a b by (simp add: constructor_calls seek_or_play_def)
  from a b c d os show ?thesis by simp
qed

text \<open>
  C8: on a target without \<open>addEventListener\<close> the constructor returns normally, with
  a helper that has no field set, and leaves the store as it was: no object has
  received a call, and the cursor and the hit area of the target are untouched.
\<close>

theorem constructor_inert:
  assumes "\<not> has_addEventListener (\<sigma> t)"
  shows "RadioButtonHelper \<sigma> t a1 a2 a3 a4 a5 a6 p ha hl = Inr (None, \<sigma>)"
  using assms by (simp add: RadioButtonHelper_def)

theorem constructor_inert_witness:
  "\<not> has_addEventListener (plain_stage 0)
   \<and> RadioButtonHelper plain_stage 0 JUndefined JUndefined JUndefined JUndefined JUndefined
        JUndefined (JBool True) (Some 1) (JStr ''hit'') = Inr (None, plain_stage)
   \<and> calls (plain_stage 0) = [] \<and> calls (plain_stage 1) = []
   \<and> cursor (plain_stage 0) = JUndefined \<and> hitArea (plain_stage 0) = None"
proof -
  have a: "\<not> has_addEventListener (plain_stage 0)" by (simp add: plain_stage_def plain_def)
  show ?thesis
    using a constructor_inert [of plain_stage 0 JUndefined JUndefined JUndefined JUndefined
        JUndefined JUndefined "JBool True" "Some 1" "JStr ''hit''"]
    by (simp add: plain_stage_def plain_def)
qed

end
